theory Spec2Isabelle
  imports Main "HOL-Library.Product_Lexorder"
begin

section \<open>Errors\<close>

text \<open>
  The exceptions that the modelled code raises or lets through. \<open>ParamError\<close> is the
  client's own exception class; \<open>IndexError\<close>, \<open>AttributeError\<close> and \<open>ValueError\<close> are
  Python's built-in ones; \<open>Timeout\<close> is the error with which the \<open>result\<close> method of a
  pending future gives up waiting.
\<close>

datatype error = ParamError | IndexError | AttributeError | ValueError | Timeout

section \<open>Python built-ins used by the client\<close>

text \<open>
  \<open>xs[i]\<close> on a Python list: a negative index counts from the end, and an index outside
  \<open>-len(xs) .. len(xs) - 1\<close> raises \<open>IndexError\<close>.
\<close>

definition list_getitem :: "'a list \<Rightarrow> int \<Rightarrow> error + 'a" where
  "list_getitem xs i =
     (let n = int (length xs);
          j = (if i < 0 then i + n else i)
      in if j < 0 \<or> n \<le> j then Inl IndexError else Inr (xs ! nat j))"

text \<open>\<open>sep.join(xs)\<close> on a list of strings.\<close>

fun join :: "string \<Rightarrow> string list \<Rightarrow> string" where
  "join sep [] = []"
| "join sep [x] = x"
| "join sep (x # y # ys) = x @ sep @ join sep (y # ys)"

text \<open>\<open>str(n)\<close> (and \<open>"{}".format(n)\<close>) for a Python integer: decimal digits, with a sign.\<close>

definition digit_char :: "nat \<Rightarrow> char" where
  "digit_char d = ''0123456789'' ! d"

function str_nat :: "nat \<Rightarrow> string" where
  "str_nat n = (if n < 10 then [digit_char n] else str_nat (n div 10) @ [digit_char (n mod 10)])"
  by pat_completeness auto
termination
  by (relation "measure (\<lambda>n. n)") auto

declare str_nat.simps [simp del]

definition str_int :: "int \<Rightarrow> string" where
  "str_int i = (if i < 0 then CHR ''-'' # str_nat (nat (- i)) else str_nat (nat i))"

text \<open>The line feed, written \<open>\n\<close> in the source's string literals.\<close>

definition NL :: string where
  "NL = [CHR 0x0A]"

section \<open>The raw search response\<close>

text \<open>
  The response message of a multi-query search comes from the transport layer. The client
  reads three things from it: the field \<open>topk_query_result\<close> (one sub-response per query),
  the field \<open>query_result_arrays\<close> of a sub-response (its ranked matches), and the fields
  \<open>id\<close> and \<open>distance\<close> of a match. The distance is a floating-point number that the
  client only stores and formats, so its type is left as the parameter \<open>'d\<close>.
\<close>

record 'd query_result =
  id_qr :: int
  distance :: 'd

record 'd topk_result =
  query_result_arrays :: "'d query_result list"

record 'd topk_response =
  topk_query_result :: "'d topk_result list"

text \<open>
  \<open>raw_source\<close> is duck-typed in the source: in eager mode it is a response message, in
  asynchronous mode it is a future whose method \<open>result(timeout=...)\<close> either returns the
  response or raises. A future is represented by that method, a function from the timeout
  to the outcome of waiting; \<open>'t\<close> is the type of timeouts. Reading \<open>topk_query_result\<close> from
  a future, or calling \<open>result\<close> on a response message, raises \<open>AttributeError\<close>.
\<close>

datatype ('t, 'd) raw_source =
    Response "'d topk_response"
  | Future "'t \<Rightarrow> error + 'd topk_response"

section \<open>TopKQueryResult\<close>

type_synonym 'd rows = "'d query_result list list"

record ('t, 'd) TopKQueryResult =
  tk_raw :: "('t, 'd) raw_source"
  tk_async :: bool
  tk_lazy :: bool
  tk_array :: "'d rows"

text \<open>
  The loop of \<open>_create_array\<close>: for each sub-response a fresh list is extended with the
  sub-response's matches and appended to \<open>array\<close>.
\<close>

fun create_array_loop :: "'d topk_result list \<Rightarrow> 'd rows \<Rightarrow> 'd rows" where
  "create_array_loop [] array = array"
| "create_array_loop (topk_result # rest) array =
     (let topk_result_list = [] @ query_result_arrays topk_result
      in create_array_loop rest (array @ [topk_result_list]))"

definition create_array :: "('t, 'd) raw_source \<Rightarrow> error + 'd rows" where
  "create_array raw =
     (case raw of
        Response r \<Rightarrow> Inr (create_array_loop (topk_query_result r) [])
      | Future f \<Rightarrow> Inl AttributeError)"

text \<open>
  The keyword arguments \<open>**kwargs\<close> of the constructor: a dictionary from names to flags.
  \<open>kwargs_get\<close> is \<open>kwargs.get(key, default)\<close>.
\<close>

type_synonym kwargs = "string \<rightharpoonup> bool"

definition kwargs_get :: "kwargs \<Rightarrow> string \<Rightarrow> bool \<Rightarrow> bool" where
  "kwargs_get kwargs key dflt = (case kwargs key of None \<Rightarrow> dflt | Some v \<Rightarrow> v)"

definition TopKQueryResult_init ::
  "('t, 'd) raw_source \<Rightarrow> kwargs \<Rightarrow> error + ('t, 'd) TopKQueryResult" where
  "TopKQueryResult_init raw_source kwargs =
     (let async_flag = kwargs_get kwargs ''async_'' False;
          lazy_flag = kwargs_get kwargs ''lazy_'' False
      in if \<not> (async_flag \<or> lazy_flag)
         then (case create_array raw_source of
                 Inl e \<Rightarrow> Inl e
               | Inr array \<Rightarrow>
                   Inr \<lparr>tk_raw = raw_source, tk_async = async_flag, tk_lazy = lazy_flag,
                        tk_array = array\<rparr>)
         else Inr \<lparr>tk_raw = raw_source, tk_async = async_flag, tk_lazy = lazy_flag,
                   tk_array = []\<rparr>)"

definition shape :: "('t, 'd) TopKQueryResult \<Rightarrow> nat \<times> nat" where
  "shape self =
     (let row = length (tk_array self);
          column = (if row = 0 then 0 else length (tk_array self ! 0))
      in (row, column))"

definition raw :: "('t, 'd) TopKQueryResult \<Rightarrow> ('t, 'd) raw_source" where
  "raw self = tk_raw self"

text \<open>
  \<open>result(timeout)\<close>. The first component is what the call returns or raises, the second
  is the object \<open>self\<close> after the call: the method assigns to none of its attributes. An
  exception raised by the future's \<open>result\<close> is not caught. The new object is built by
  \<open>TopKQueryResult(response, lazy_=self._lazy, async_=False)\<close>.
\<close>

definition result ::
  "('t, 'd) TopKQueryResult \<Rightarrow> 't \<Rightarrow>
     (error + ('t, 'd) TopKQueryResult) \<times> ('t, 'd) TopKQueryResult" where
  "result self timeout =
     (if tk_async self
      then (case tk_raw self of
              Future f \<Rightarrow>
                (case f timeout of
                   Inl e \<Rightarrow> (Inl e, self)
                 | Inr response \<Rightarrow>
                     (TopKQueryResult_init (Response response)
                        [''lazy_'' \<mapsto> tk_lazy self, ''async_'' \<mapsto> False], self))
            | Response r \<Rightarrow> (Inl AttributeError, self))
      else (Inr self, self))"

text \<open>\<open>__getitem__\<close> at an integer position, \<open>__iter__\<close> and \<open>__len__\<close> delegate to the list.\<close>

definition getitem :: "('t, 'd) TopKQueryResult \<Rightarrow> int \<Rightarrow> error + 'd query_result list" where
  "getitem self item = list_getitem (tk_array self) item"

definition iter :: "('t, 'd) TopKQueryResult \<Rightarrow> 'd rows" where
  "iter self = tk_array self"

definition len :: "('t, 'd) TopKQueryResult \<Rightarrow> nat" where
  "len self = length (tk_array self)"

text \<open>
  \<open>__repr__\<close>. \<open>lam\<close> is the lambda of the source; the text of a distance
  (\<open>"{}".format(x.distance)\<close>, a float) is given by the parameter \<open>fmt\<close>. The slices
  \<open>self[:3]\<close> and \<open>topk[:3]\<close> are \<open>take 3\<close>; \<open>topk[-1]\<close> is a list index and raises
  \<open>IndexError\<close> on an empty row.
\<close>

definition lam :: "('d \<Rightarrow> string) \<Rightarrow> 'd query_result \<Rightarrow> string" where
  "lam fmt x = ''(id:'' @ str_int (id_qr x) @ '', distance:'' @ fmt (distance x) @ '')''"

fun repr_middle :: "('d \<Rightarrow> string) \<Rightarrow> 'd rows \<Rightarrow> string \<Rightarrow> error + string" where
  "repr_middle fmt [] middle = Inr middle"
| "repr_middle fmt (topk # rest) middle =
     (let middle1 = middle @ '' [ '' @ join ('','' @ NL @ ''   '') (map (lam fmt) (take 3 topk));
          middle2 = middle1 @ '','' @ NL @ ''   ...''
      in case list_getitem topk (- 1) of
           Inl e \<Rightarrow> Inl e
         | Inr last_match \<Rightarrow>
             repr_middle fmt rest
               (middle2 @ NL @ ''   '' @ lam fmt last_match @ '' ]'' @ NL @ NL))"

definition spaces :: string where
  "spaces = ''        ......'' @ NL @ ''        ......''"

fun repr_rows ::
  "('d \<Rightarrow> string) \<Rightarrow> ('t, 'd) TopKQueryResult \<Rightarrow> nat list \<Rightarrow> string list \<Rightarrow>
     error + string list" where
  "repr_rows fmt self [] str_out_list = Inr str_out_list"
| "repr_rows fmt self (i # rest) str_out_list =
     (case getitem self (int i) of
        Inl e \<Rightarrow> Inl e
      | Inr row \<Rightarrow>
          repr_rows fmt self rest
            (str_out_list @ [''['' @ NL @ join ('','' @ NL) (map (lam fmt) row) @ NL @ '']'']))"

definition repr :: "('d \<Rightarrow> string) \<Rightarrow> ('t, 'd) TopKQueryResult \<Rightarrow> error + string" where
  "repr fmt self =
     (if len self > 5
      then (case repr_middle fmt (take 3 (tk_array self)) [] of
              Inl e \<Rightarrow> Inl e
            | Inr middle \<Rightarrow> Inr (''['' @ NL @ middle @ spaces @ NL @ '']''))
      else (case repr_rows fmt self [0..<len self] [] of
              Inl e \<Rightarrow> Inl e
            | Inr str_out_list \<Rightarrow>
                Inr (''['' @ NL @ join ('','' @ NL) str_out_list @ NL @ '']'')))"

text \<open>
  Names for the two texts that \<open>__repr__\<close> builds for a row: the row in full, as the
  second loop appends it to \<open>str_out_list\<close>, and the row cut to three matches, the marker
  \<open>...\<close> and the last match, as the first loop appends it to \<open>middle\<close>.
\<close>

abbreviation row_in_full :: "('d \<Rightarrow> string) \<Rightarrow> 'd query_result list \<Rightarrow> string" where
  "row_in_full fmt row \<equiv> ''['' @ NL @ join ('','' @ NL) (map (lam fmt) row) @ NL @ '']''"

abbreviation row_truncated :: "('d \<Rightarrow> string) \<Rightarrow> 'd query_result list \<Rightarrow> string" where
  "row_truncated fmt topk \<equiv>
     '' [ '' @ join ('','' @ NL @ ''   '') (map (lam fmt) (take 3 topk)) @
     '','' @ NL @ ''   ...'' @ NL @ ''   '' @ lam fmt (last topk) @ '' ]'' @ NL @ NL"

section \<open>Range\<close>

text \<open>
  Modelled from the spec: the helpers \<open>parser_range_date\<close> and \<open>is_legal_date_range\<close> of
  \<open>milvus/client/utils.py\<close> are not among the sources. A canonical date is a triple
  (year, month, day), ordered as the calendar orders it, that is lexicographically;
  \<open>is_legal_date_range\<close> is the invariant of the spec, \<open>start_date \<le> end_date\<close>.
  \<open>parser_range_date\<close>, which normalizes a string, a date or a datetime to a canonical
  date or rejects it, is the parameter \<open>parser\<close> of the constructor.
\<close>

type_synonym date = "nat \<times> nat \<times> nat"

definition is_legal_date_range :: "date \<Rightarrow> date \<Rightarrow> bool" where
  "is_legal_date_range start_date end_date = (start_date \<le> end_date)"

record Range =
  start_date :: date
  end_date :: date

definition Range_init :: "('a \<Rightarrow> error + date) \<Rightarrow> 'a \<Rightarrow> 'a \<Rightarrow> error + Range" where
  "Range_init parser start_arg end_arg =
     (case parser start_arg of
        Inl e \<Rightarrow> Inl e
      | Inr start_v \<Rightarrow>
          (case parser end_arg of
             Inl e \<Rightarrow> Inl e
           | Inr end_v \<Rightarrow>
               if is_legal_date_range start_v end_v
               then Inr \<lparr>start_date = start_v, end_date = end_v\<rparr>
               else Inl ParamError))"

section \<open>IndexParam\<close>

text \<open>
  Modelled from the spec: the enumeration \<open>IndexType\<close> of \<open>milvus/client/types.py\<close> is not
  among the sources. Its members and their numbers are those of the docstring of
  \<open>IndexParam\<close>: 0-invalid, 1-flat, 2-ivflat, 3-IVF_SQ8, 4-MIX_NSG. \<open>IndexType_call\<close> is
  the enumeration's lookup by value, \<open>IndexType(n)\<close>, which raises \<open>ValueError\<close> for a
  number that no member has.
\<close>

datatype IndexType = INVALID | FLAT | IVFLAT | IVF_SQ8 | MIX_NSG

definition IndexType_call :: "int \<Rightarrow> error + IndexType" where
  "IndexType_call n =
     (if n = 0 then Inr INVALID
      else if n = 1 then Inr FLAT
      else if n = 2 then Inr IVFLAT
      else if n = 3 then Inr IVF_SQ8
      else if n = 4 then Inr MIX_NSG
      else Inl ValueError)"

text \<open>
  The arguments of the constructor are dynamically typed. For the table name the source
  tells \<open>None\<close>, a string and anything else (converted by \<open>str\<close>; here an integer) apart;
  for the index type an integer, a member of \<open>IndexType\<close> and anything else.
\<close>

datatype table_name_arg = NoneName | StrName string | IntName int

datatype index_type_arg = IntType int | EnumType IndexType | OtherType

record 'n IndexParam =
  ip_table_name :: string
  ip_index_type :: IndexType
  ip_nlist :: 'n

text \<open>
  The two statements on \<open>index_type\<close>: an integer is first replaced by the member with
  that number; then whatever is not a member, and the member \<open>INVALID\<close>, is rejected.
\<close>

definition check_index_type :: "index_type_arg \<Rightarrow> error + IndexType" where
  "check_index_type index_type =
     (case index_type of
        IntType n \<Rightarrow>
          (case IndexType_call n of
             Inl e \<Rightarrow> Inl e
           | Inr t \<Rightarrow> if t = INVALID then Inl ParamError else Inr t)
      | EnumType t \<Rightarrow> if t = INVALID then Inl ParamError else Inr t
      | OtherType \<Rightarrow> Inl ParamError)"

definition IndexParam_init ::
  "table_name_arg \<Rightarrow> index_type_arg \<Rightarrow> 'n \<Rightarrow> error + 'n IndexParam" where
  "IndexParam_init table_name index_type nlist =
     (case table_name of
        NoneName \<Rightarrow> Inl ParamError
      | StrName s \<Rightarrow>
          (case check_index_type index_type of
             Inl e \<Rightarrow> Inl e
           | Inr t \<Rightarrow> Inr \<lparr>ip_table_name = s, ip_index_type = t, ip_nlist = nlist\<rparr>)
      | IntName n \<Rightarrow>
          (case check_index_type index_type of
             Inl e \<Rightarrow> Inl e
           | Inr t \<Rightarrow> Inr \<lparr>ip_table_name = str_int n, ip_index_type = t, ip_nlist = nlist\<rparr>))"

section \<open>Example inputs\<close>

text \<open>
  Inputs of the concrete instances below; a distance is written as its decimal text.
  \<open>two_queries\<close> is a response to two queries, with two matches and one match, and
  \<open>two_rows_result\<close> the eager result over it; \<open>one_query\<close> is a response to one query
  with one match; in \<open>six_queries\<close> the first of six queries found nothing.
  \<open>completes_after n r\<close> is the \<open>result\<close> method of a future that completes with the
  response \<open>r\<close> after \<open>n\<close> units of time: waiting for a shorter time raises \<open>Timeout\<close>.
\<close>

abbreviation two_queries :: "string topk_response" where
  "two_queries \<equiv>
     \<lparr>topk_query_result =
        [\<lparr>query_result_arrays =
            [\<lparr>id_qr = 1, distance = ''0.1''\<rparr>, \<lparr>id_qr = 2, distance = ''0.5''\<rparr>]\<rparr>,
         \<lparr>query_result_arrays = [\<lparr>id_qr = 3, distance = ''0.2''\<rparr>]\<rparr>]\<rparr>"

abbreviation two_rows_result :: "('t, string) TopKQueryResult" where
  "two_rows_result \<equiv>
     \<lparr>tk_raw = Response two_queries, tk_async = False, tk_lazy = False,
      tk_array = [[\<lparr>id_qr = 1, distance = ''0.1''\<rparr>, \<lparr>id_qr = 2, distance = ''0.5''\<rparr>],
                  [\<lparr>id_qr = 3, distance = ''0.2''\<rparr>]]\<rparr>"

abbreviation one_query :: "string topk_response" where
  "one_query \<equiv>
     \<lparr>topk_query_result = [\<lparr>query_result_arrays = [\<lparr>id_qr = 1, distance = ''0.1''\<rparr>]\<rparr>]\<rparr>"

abbreviation six_queries :: "string topk_response" where
  "six_queries \<equiv>
     \<lparr>topk_query_result =
        [\<lparr>query_result_arrays = []\<rparr>,
         \<lparr>query_result_arrays = [\<lparr>id_qr = 1, distance = ''0.1''\<rparr>]\<rparr>,
         \<lparr>query_result_arrays = [\<lparr>id_qr = 2, distance = ''0.2''\<rparr>]\<rparr>,
         \<lparr>query_result_arrays = [\<lparr>id_qr = 3, distance = ''0.3''\<rparr>]\<rparr>,
         \<lparr>query_result_arrays = [\<lparr>id_qr = 4, distance = ''0.4''\<rparr>]\<rparr>,
         \<lparr>query_result_arrays = [\<lparr>id_qr = 5, distance = ''0.5''\<rparr>]\<rparr>]\<rparr>"

abbreviation six_rows_result :: "('t, string) TopKQueryResult" where
  "six_rows_result \<equiv>
     \<lparr>tk_raw = Response six_queries, tk_async = False, tk_lazy = False,
      tk_array = [[], [\<lparr>id_qr = 1, distance = ''0.1''\<rparr>], [\<lparr>id_qr = 2, distance = ''0.2''\<rparr>],
                  [\<lparr>id_qr = 3, distance = ''0.3''\<rparr>], [\<lparr>id_qr = 4, distance = ''0.4''\<rparr>],
                  [\<lparr>id_qr = 5, distance = ''0.5''\<rparr>]]\<rparr>"

abbreviation completes_after :: "nat \<Rightarrow> 'r \<Rightarrow> nat \<Rightarrow> error + 'r" where
  "completes_after n r \<equiv> (\<lambda>t. if n \<le> t then Inr r else Inl Timeout)"

section \<open>Eager materialization\<close>

lemma create_array_loop_map:
  "create_array_loop ts array = array @ map query_result_arrays ts"
  by (induction ts arbitrary: array) simp_all

text \<open>
  Claim C3. Eager materialization of a raw multi-query response succeeds and yields one row
  per sub-response, in the order of the sub-responses, each row being exactly the
  sub-response's list of ranked matches: nothing is sorted, dropped or added.
\<close>

theorem create_array_verbatim:
  "create_array (Response r) = Inr (map query_result_arrays (topk_query_result r))"
  by (simp add: create_array_def create_array_loop_map)

section \<open>Construction, shape and indexing\<close>

lemma init_eager:
  assumes "\<not> kwargs_get kwargs ''async_'' False" and "\<not> kwargs_get kwargs ''lazy_'' False"
  shows "TopKQueryResult_init (Response r) kwargs =
           Inr \<lparr>tk_raw = Response r, tk_async = False, tk_lazy = False,
                tk_array = map query_result_arrays (topk_query_result r)\<rparr>"
  using assms
  by (simp add: TopKQueryResult_init_def create_array_def create_array_loop_map)

lemma init_deferred:
  assumes "kwargs_get kwargs ''async_'' False \<or> kwargs_get kwargs ''lazy_'' False"
  shows "TopKQueryResult_init raw_source kwargs =
           Inr \<lparr>tk_raw = raw_source, tk_async = kwargs_get kwargs ''async_'' False,
                tk_lazy = kwargs_get kwargs ''lazy_'' False, tk_array = []\<rparr>"
  using assms by (auto simp add: TopKQueryResult_init_def Let_def)

text \<open>
  Claim C1. A result built eagerly (neither flag set) from a raw response with \<open>N\<close>
  sub-responses exists, its \<open>shape\<close> is \<open>(N, k\<^sub>0)\<close>, where \<open>k\<^sub>0\<close> is the number of matches of
  the first sub-response only (0 when there is none), and its length is \<open>N\<close>; with no
  rows the shape is \<open>(0, 0)\<close>.
\<close>

theorem shape_len_eager:
  assumes "\<not> kwargs_get kwargs ''async_'' False" and "\<not> kwargs_get kwargs ''lazy_'' False"
  shows "\<exists>self. TopKQueryResult_init (Response r) kwargs = Inr self \<and>
           shape self =
             (length (topk_query_result r),
              (case topk_query_result r of [] \<Rightarrow> 0 | first # _ \<Rightarrow> length (query_result_arrays first))) \<and>
           len self = length (topk_query_result r) \<and>
           (topk_query_result r = [] \<longrightarrow> shape self = (0, 0))"
  by (simp add: init_eager [OF assms] shape_def len_def split: list.split)

text \<open>
  The example of two queries with two matches and one match: the shape is \<open>(2, 2)\<close>.
\<close>

theorem shape_len_eager_witness:
  "\<exists>self. TopKQueryResult_init (Response two_queries) Map.empty = Inr self \<and>
     shape self = (2, 2) \<and> len self = 2"
  using shape_len_eager [of Map.empty two_queries]
  by (simp add: kwargs_get_def numeral_2_eq_2)

lemma list_getitem_nonneg:
  "0 \<le> i \<Longrightarrow> i < int (length xs) \<Longrightarrow> list_getitem xs i = Inr (xs ! nat i)"
  by (simp add: list_getitem_def Let_def)

lemma list_getitem_beyond:
  "int (length xs) \<le> i \<Longrightarrow> list_getitem xs i = Inl IndexError"
  by (simp add: list_getitem_def Let_def)

lemma list_getitem_negative:
  assumes "1 \<le> k" and "k \<le> length xs"
  shows "list_getitem xs (- int k) = Inr (xs ! (length xs - k))"
proof -
  define m where "m = length xs - k"
  with assms(2) have m: "length xs = m + k" by simp
  from assms(1) show ?thesis
    by (simp add: list_getitem_def Let_def m)
qed

lemma list_getitem_IndexError_iff:
  "list_getitem xs i = Inl IndexError \<longleftrightarrow> i < - int (length xs) \<or> int (length xs) \<le> i"
  by (auto simp add: list_getitem_def Let_def)

lemma init_eager_array:
  assumes "\<not> kwargs_get kwargs ''async_'' False" and "\<not> kwargs_get kwargs ''lazy_'' False"
    and "TopKQueryResult_init (Response r) kwargs = Inr self"
  shows "tk_array self = map query_result_arrays (topk_query_result r)"
  using assms
  by (auto simp add: TopKQueryResult_init_def create_array_def create_array_loop_map)

lemma nth_map_int:
  assumes "0 \<le> i" and "i < int (length xs)"
  shows "map f xs ! nat i = f (xs ! nat i)"
proof -
  from assms have "nat i < length xs" by linarith
  then show ?thesis by (rule nth_map)
qed

text \<open>
  Claim C4. In a result built eagerly from a raw response, indexing at a position \<open>i\<close> with
  \<open>0 \<le> i < N\<close> returns the list of matches of the \<open>i\<close>-th sub-response, unchanged, and
  indexing at any \<open>i \<ge> N\<close> raises \<open>IndexError\<close>.
\<close>

theorem getitem_eager:
  assumes "\<not> kwargs_get kwargs ''async_'' False" and "\<not> kwargs_get kwargs ''lazy_'' False"
    and "TopKQueryResult_init (Response r) kwargs = Inr self"
  shows "(0 \<le> i \<and> i < int (len self) \<longrightarrow>
            getitem self i = Inr (query_result_arrays (topk_query_result r ! nat i))) \<and>
         (int (len self) \<le> i \<longrightarrow> getitem self i = Inl IndexError)"
proof -
  note arr = init_eager_array [OF assms]
  have inside: "getitem self i = Inr (query_result_arrays (topk_query_result r ! nat i))"
    if "0 \<le> i" and "i < int (len self)"
    using that by (simp add: arr getitem_def len_def list_getitem_nonneg nth_map_int)
  have beyond: "getitem self i = Inl IndexError" if "int (len self) \<le> i"
    using that by (simp add: getitem_def len_def list_getitem_beyond)
  from inside beyond show ?thesis by blast
qed

text \<open>
  With two rows, position 1 holds the second query's matches and position 2 is out of range.
\<close>

theorem getitem_eager_witness:
  "TopKQueryResult_init (Response two_queries) Map.empty = Inr two_rows_result \<and>
   getitem two_rows_result 1 = Inr [\<lparr>id_qr = 3, distance = ''0.2''\<rparr>] \<and>
   getitem two_rows_result 2 = Inl IndexError"
proof -
  have init: "TopKQueryResult_init (Response two_queries) Map.empty = Inr two_rows_result"
    by (simp add: TopKQueryResult_init_def kwargs_get_def create_array_def)
  have flags: "\<not> kwargs_get Map.empty ''async_'' False" "\<not> kwargs_get Map.empty ''lazy_'' False"
    by (simp_all add: kwargs_get_def)
  have one: "getitem two_rows_result 1 = Inr [\<lparr>id_qr = 3, distance = ''0.2''\<rparr>]"
    using getitem_eager [OF flags init, of 1] by (simp add: len_def)
  have two: "getitem two_rows_result 2 = Inl IndexError"
    using getitem_eager [OF flags init, of 2] by (simp add: len_def)
  from init one two show ?thesis by (intro conjI)
qed

text \<open>
  Claim C10. Indexing a result with \<open>N\<close> rows at the negative position \<open>-k\<close>, where
  \<open>1 \<le> k \<le> N\<close>, returns row \<open>N - k\<close>; a negative position raises \<open>IndexError\<close> exactly when
  it is below \<open>-N\<close>.
\<close>

theorem getitem_negative:
  "(1 \<le> k \<and> k \<le> len self \<longrightarrow>
      getitem self (- int k) = Inr (tk_array self ! (len self - k))) \<and>
   (i < 0 \<longrightarrow> (getitem self i = Inl IndexError \<longleftrightarrow> i < - int (len self)))"
proof -
  have from_end: "getitem self (- int k) = Inr (tk_array self ! (len self - k))"
    if "1 \<le> k" and "k \<le> len self"
    using that by (simp add: getitem_def len_def list_getitem_negative)
  have fails: "getitem self i = Inl IndexError \<longleftrightarrow> i < - int (len self)" if "i < 0"
    using that by (simp add: getitem_def len_def list_getitem_IndexError_iff)
  from from_end fails show ?thesis by blast
qed

text \<open>
  With two rows, \<open>-1\<close> is the last row, \<open>-2\<close> the first, and \<open>-3\<close> is out of range.
\<close>

theorem getitem_negative_witness:
  "getitem two_rows_result (- 1) = Inr [\<lparr>id_qr = 3, distance = ''0.2''\<rparr>] \<and>
   getitem two_rows_result (- 2) =
     Inr [\<lparr>id_qr = 1, distance = ''0.1''\<rparr>, \<lparr>id_qr = 2, distance = ''0.5''\<rparr>] \<and>
   getitem two_rows_result (- 3) = Inl IndexError"
proof -
  have one: "getitem two_rows_result (- 1) = Inr [\<lparr>id_qr = 3, distance = ''0.2''\<rparr>]"
    using getitem_negative [of 1 two_rows_result 0] by (simp add: len_def)
  have two: "getitem two_rows_result (- 2) =
      Inr [\<lparr>id_qr = 1, distance = ''0.1''\<rparr>, \<lparr>id_qr = 2, distance = ''0.5''\<rparr>]"
    using getitem_negative [of 2 two_rows_result 0] by (simp add: len_def)
  have three: "getitem two_rows_result (- 3) = Inl IndexError"
    using getitem_negative [of 0 two_rows_result "- 3"] by (simp add: len_def)
  from one two three show ?thesis by (intro conjI)
qed

section \<open>Deferred modes and resolution\<close>

text \<open>
  Claim C9. A result constructed with the lazy flag set and the async flag unset has no
  rows, whatever its raw source is, and no operation changes that: \<open>result(timeout)\<close>
  returns the object itself and leaves it as it is, so every later operation meets the same
  object; its length is 0, its shape is \<open>(0, 0)\<close>, indexing fails at every position and
  iteration yields nothing.
\<close>

theorem lazy_stays_empty:
  assumes "kwargs_get kwargs ''lazy_'' False" and "\<not> kwargs_get kwargs ''async_'' False"
  shows "\<exists>self. TopKQueryResult_init raw_source kwargs = Inr self \<and>
           tk_array self = [] \<and>
           result self timeout = (Inr self, self) \<and>
           len self = 0 \<and> shape self = (0, 0) \<and>
           (\<forall>i. getitem self i = Inl IndexError) \<and>
           iter self = []"
proof -
  let ?self = "\<lparr>tk_raw = raw_source, tk_async = False, tk_lazy = True, tk_array = []\<rparr>"
  have "TopKQueryResult_init raw_source kwargs = Inr ?self"
    using assms by (simp add: init_deferred)
  moreover have "result ?self timeout = (Inr ?self, ?self)"
    by (simp add: result_def)
  moreover have "len ?self = 0" "shape ?self = (0, 0)" "iter ?self = []"
    by (simp_all add: len_def shape_def iter_def)
  moreover have "\<forall>i. getitem ?self i = Inl IndexError"
    by (simp add: getitem_def list_getitem_beyond list_getitem_def)
  ultimately show ?thesis by simp
qed

text \<open>
  Claim C5. When the future of an asynchronous result does not complete within the timeout,
  that is, when its \<open>result\<close> method raises \<open>Timeout\<close> for that timeout, \<open>result(timeout)\<close>
  raises \<open>Timeout\<close> and the result object is what it was before the call.
\<close>

theorem result_timeout:
  assumes "tk_async self" and "tk_raw self = Future f" and "f timeout = Inl Timeout"
  shows "result self timeout = (Inl Timeout, self)"
  using assms by (simp add: result_def)

text \<open>
  Claim C2, amended. For an asynchronous result whose lazy flag is unset and whose future
  completes within the timeout, \<open>result(timeout)\<close> returns a new eager result, equal to
  what eager construction on the completed response produces, rows included. When the lazy
  flag is set as well, the constructor call \<open>TopKQueryResult(response, lazy_=self._lazy,
  async_=False)\<close> passes it on: the returned object is lazy and has no rows. For a result
  that is not asynchronous, \<open>result(timeout)\<close> returns the object itself, unchanged.
\<close>

theorem result_resolves:
  "(tk_async self \<and> tk_raw self = Future f \<and> f timeout = Inr response \<and> \<not> tk_lazy self \<longrightarrow>
      fst (result self timeout) = TopKQueryResult_init (Response response) Map.empty \<and>
      fst (result self timeout) =
        Inr \<lparr>tk_raw = Response response, tk_async = False, tk_lazy = False,
             tk_array = map query_result_arrays (topk_query_result response)\<rparr>) \<and>
   (tk_async self \<and> tk_raw self = Future f \<and> f timeout = Inr response \<and> tk_lazy self \<longrightarrow>
      fst (result self timeout) =
        Inr \<lparr>tk_raw = Response response, tk_async = False, tk_lazy = True, tk_array = []\<rparr>) \<and>
   (\<not> tk_async self \<longrightarrow> result self timeout = (Inr self, self))"
proof -
  have empty_flags: "\<not> kwargs_get Map.empty ''async_'' False" "\<not> kwargs_get Map.empty ''lazy_'' False"
    by (simp_all add: kwargs_get_def)
  have eager: "fst (result self timeout) = TopKQueryResult_init (Response response) Map.empty \<and>
      fst (result self timeout) =
        Inr \<lparr>tk_raw = Response response, tk_async = False, tk_lazy = False,
             tk_array = map query_result_arrays (topk_query_result response)\<rparr>"
    if "tk_async self" "tk_raw self = Future f" "f timeout = Inr response" "\<not> tk_lazy self"
  proof -
    let ?kw = "[''lazy_'' \<mapsto> False, ''async_'' \<mapsto> False]"
    let ?new = "\<lparr>tk_raw = Response response, tk_async = False, tk_lazy = False,
             tk_array = map query_result_arrays (topk_query_result response)\<rparr>"
    have "\<not> kwargs_get ?kw ''async_'' False" "\<not> kwargs_get ?kw ''lazy_'' False"
      by (simp_all add: kwargs_get_def)
    then have built: "TopKQueryResult_init (Response response) ?kw = Inr ?new"
      by (rule init_eager)
    have plain: "TopKQueryResult_init (Response response) Map.empty = Inr ?new"
      using empty_flags by (rule init_eager)
    have "fst (result self timeout) = TopKQueryResult_init (Response response) ?kw"
      using that by (simp add: result_def)
    then have returned: "fst (result self timeout) = Inr ?new"
      using built by (rule trans)
    then have "fst (result self timeout) = TopKQueryResult_init (Response response) Map.empty"
      using plain [symmetric] by (rule trans)
    then show ?thesis using returned by (rule conjI)
  qed
  have lazy: "fst (result self timeout) =
        Inr \<lparr>tk_raw = Response response, tk_async = False, tk_lazy = True, tk_array = []\<rparr>"
    if "tk_async self" "tk_raw self = Future f" "f timeout = Inr response" "tk_lazy self"
    using that by (simp add: result_def init_deferred kwargs_get_def)
  have same: "result self timeout = (Inr self, self)" if "\<not> tk_async self"
    using that by (simp add: result_def)
  from eager lazy same show ?thesis by blast
qed


text \<open>
  A lazy result over a response that holds one query with one match: the match is not
  materialized.
\<close>

theorem lazy_stays_empty_witness:
  "\<exists>self. TopKQueryResult_init (Response \<lparr>topk_query_result = [\<lparr>query_result_arrays = [\<lparr>id_qr = 1, distance = ''0.1''\<rparr>]\<rparr>]\<rparr> :: (nat, string) raw_source) [''lazy_'' \<mapsto> True] = Inr self \<and>
     tk_array self = [] \<and> result self 10 = (Inr self, self) \<and> len self = 0 \<and>
     shape self = (0, 0) \<and> getitem self 0 = Inl IndexError \<and> iter self = []"
proof -
  have flags: "kwargs_get [''lazy_'' \<mapsto> True] ''lazy_'' False"
    "\<not> kwargs_get [''lazy_'' \<mapsto> True] ''async_'' False"
    by (simp_all add: kwargs_get_def)
  from lazy_stays_empty [OF flags, of "Response \<lparr>topk_query_result = [\<lparr>query_result_arrays = [\<lparr>id_qr = 1, distance = ''0.1''\<rparr>]\<rparr>]\<rparr>" "10::nat"]
  show ?thesis by blast
qed

text \<open>
  A future that completes after 30 time units, waited for with a timeout of 10.
\<close>

theorem result_timeout_witness:
  "TopKQueryResult_init (Future (\<lambda>t::nat. if 30 \<le> t then Inr \<lparr>topk_query_result = [\<lparr>query_result_arrays = [\<lparr>id_qr = 1, distance = ''0.1''\<rparr>]\<rparr>]\<rparr> else Inl Timeout)) [''async_'' \<mapsto> True] = Inr \<lparr>tk_raw = Future (\<lambda>t::nat. if 30 \<le> t then Inr \<lparr>topk_query_result = [\<lparr>query_result_arrays = [\<lparr>id_qr = 1, distance = ''0.1''\<rparr>]\<rparr>]\<rparr> else Inl Timeout), tk_async = True, tk_lazy = False, tk_array = []\<rparr> \<and>
   result \<lparr>tk_raw = Future (\<lambda>t::nat. if 30 \<le> t then Inr \<lparr>topk_query_result = [\<lparr>query_result_arrays = [\<lparr>id_qr = 1, distance = ''0.1''\<rparr>]\<rparr>]\<rparr> else Inl Timeout), tk_async = True, tk_lazy = False, tk_array = []\<rparr> 10 = (Inl Timeout, \<lparr>tk_raw = Future (\<lambda>t::nat. if 30 \<le> t then Inr \<lparr>topk_query_result = [\<lparr>query_result_arrays = [\<lparr>id_qr = 1, distance = ''0.1''\<rparr>]\<rparr>]\<rparr> else Inl Timeout), tk_async = True, tk_lazy = False, tk_array = []\<rparr>)"
proof -
  have "TopKQueryResult_init (Future (\<lambda>t::nat. if 30 \<le> t then Inr \<lparr>topk_query_result = [\<lparr>query_result_arrays = [\<lparr>id_qr = 1, distance = ''0.1''\<rparr>]\<rparr>]\<rparr> else Inl Timeout)) [''async_'' \<mapsto> True] = Inr \<lparr>tk_raw = Future (\<lambda>t::nat. if 30 \<le> t then Inr \<lparr>topk_query_result = [\<lparr>query_result_arrays = [\<lparr>id_qr = 1, distance = ''0.1''\<rparr>]\<rparr>]\<rparr> else Inl Timeout), tk_async = True, tk_lazy = False, tk_array = []\<rparr>"
    by (simp add: TopKQueryResult_init_def kwargs_get_def)
  moreover have "result \<lparr>tk_raw = Future (\<lambda>t::nat. if 30 \<le> t then Inr \<lparr>topk_query_result = [\<lparr>query_result_arrays = [\<lparr>id_qr = 1, distance = ''0.1''\<rparr>]\<rparr>]\<rparr> else Inl Timeout), tk_async = True, tk_lazy = False, tk_array = []\<rparr> 10 = (Inl Timeout, \<lparr>tk_raw = Future (\<lambda>t::nat. if 30 \<le> t then Inr \<lparr>topk_query_result = [\<lparr>query_result_arrays = [\<lparr>id_qr = 1, distance = ''0.1''\<rparr>]\<rparr>]\<rparr> else Inl Timeout), tk_async = True, tk_lazy = False, tk_array = []\<rparr>)"
    using result_timeout [of "\<lparr>tk_raw = Future (\<lambda>t::nat. if 30 \<le> t then Inr \<lparr>topk_query_result = [\<lparr>query_result_arrays = [\<lparr>id_qr = 1, distance = ''0.1''\<rparr>]\<rparr>]\<rparr> else Inl Timeout), tk_async = True, tk_lazy = False, tk_array = []\<rparr>" "(\<lambda>t::nat. if 30 \<le> t then Inr \<lparr>topk_query_result = [\<lparr>query_result_arrays = [\<lparr>id_qr = 1, distance = ''0.1''\<rparr>]\<rparr>]\<rparr> else Inl Timeout)" 10] by simp
  ultimately show ?thesis by (rule conjI)
qed

text \<open>
  A future that completes after 5 time units, waited for with a timeout of 10, under an
  asynchronous result, under an asynchronous and lazy one, and an eager result.
\<close>

theorem result_resolves_witness:
  "fst (result \<lparr>tk_raw = Future (\<lambda>t::nat. if 5 \<le> t then Inr \<lparr>topk_query_result = [\<lparr>query_result_arrays = [\<lparr>id_qr = 1, distance = ''0.1''\<rparr>]\<rparr>]\<rparr> else Inl Timeout), tk_async = True, tk_lazy = False, tk_array = []\<rparr> 10) = TopKQueryResult_init (Response \<lparr>topk_query_result = [\<lparr>query_result_arrays = [\<lparr>id_qr = 1, distance = ''0.1''\<rparr>]\<rparr>]\<rparr>) Map.empty \<and>
   fst (result \<lparr>tk_raw = Future (\<lambda>t::nat. if 5 \<le> t then Inr \<lparr>topk_query_result = [\<lparr>query_result_arrays = [\<lparr>id_qr = 1, distance = ''0.1''\<rparr>]\<rparr>]\<rparr> else Inl Timeout), tk_async = True, tk_lazy = False, tk_array = []\<rparr> 10) = Inr \<lparr>tk_raw = Response \<lparr>topk_query_result = [\<lparr>query_result_arrays = [\<lparr>id_qr = 1, distance = ''0.1''\<rparr>]\<rparr>]\<rparr>, tk_async = False, tk_lazy = False, tk_array = [[\<lparr>id_qr = 1, distance = ''0.1''\<rparr>]]\<rparr> \<and>
   fst (result \<lparr>tk_raw = Future (\<lambda>t::nat. if 5 \<le> t then Inr \<lparr>topk_query_result = [\<lparr>query_result_arrays = [\<lparr>id_qr = 1, distance = ''0.1''\<rparr>]\<rparr>]\<rparr> else Inl Timeout), tk_async = True, tk_lazy = True, tk_array = []\<rparr> 10) = Inr \<lparr>tk_raw = Response \<lparr>topk_query_result = [\<lparr>query_result_arrays = [\<lparr>id_qr = 1, distance = ''0.1''\<rparr>]\<rparr>]\<rparr>, tk_async = False, tk_lazy = True, tk_array = []\<rparr> \<and>
   result \<lparr>tk_raw = (Response \<lparr>topk_query_result = [\<lparr>query_result_arrays = [\<lparr>id_qr = 1, distance = ''0.1''\<rparr>]\<rparr>]\<rparr> :: (nat, string) raw_source), tk_async = False, tk_lazy = False, tk_array = [[\<lparr>id_qr = 1, distance = ''0.1''\<rparr>]]\<rparr> 10 = (Inr \<lparr>tk_raw = (Response \<lparr>topk_query_result = [\<lparr>query_result_arrays = [\<lparr>id_qr = 1, distance = ''0.1''\<rparr>]\<rparr>]\<rparr> :: (nat, string) raw_source), tk_async = False, tk_lazy = False, tk_array = [[\<lparr>id_qr = 1, distance = ''0.1''\<rparr>]]\<rparr>, \<lparr>tk_raw = (Response \<lparr>topk_query_result = [\<lparr>query_result_arrays = [\<lparr>id_qr = 1, distance = ''0.1''\<rparr>]\<rparr>]\<rparr> :: (nat, string) raw_source), tk_async = False, tk_lazy = False, tk_array = [[\<lparr>id_qr = 1, distance = ''0.1''\<rparr>]]\<rparr>)"
proof -
  let ?r = "\<lparr>topk_query_result = [\<lparr>query_result_arrays = [\<lparr>id_qr = 1, distance = ''0.1''\<rparr>]\<rparr>]\<rparr>"
  let ?f = "(\<lambda>t::nat. if 5 \<le> t then Inr \<lparr>topk_query_result = [\<lparr>query_result_arrays = [\<lparr>id_qr = 1, distance = ''0.1''\<rparr>]\<rparr>]\<rparr> else Inl Timeout)"
  let ?a = "\<lparr>tk_raw = Future (\<lambda>t::nat. if 5 \<le> t then Inr \<lparr>topk_query_result = [\<lparr>query_result_arrays = [\<lparr>id_qr = 1, distance = ''0.1''\<rparr>]\<rparr>]\<rparr> else Inl Timeout), tk_async = True, tk_lazy = False, tk_array = []\<rparr>"
  let ?b = "\<lparr>tk_raw = Future (\<lambda>t::nat. if 5 \<le> t then Inr \<lparr>topk_query_result = [\<lparr>query_result_arrays = [\<lparr>id_qr = 1, distance = ''0.1''\<rparr>]\<rparr>]\<rparr> else Inl Timeout), tk_async = True, tk_lazy = True, tk_array = []\<rparr>"
  let ?c = "\<lparr>tk_raw = (Response \<lparr>topk_query_result = [\<lparr>query_result_arrays = [\<lparr>id_qr = 1, distance = ''0.1''\<rparr>]\<rparr>]\<rparr> :: (nat, string) raw_source), tk_async = False, tk_lazy = False, tk_array = [[\<lparr>id_qr = 1, distance = ''0.1''\<rparr>]]\<rparr>"
  have a: "tk_async ?a \<and> tk_raw ?a = Future ?f \<and> ?f 10 = Inr ?r \<and> \<not> tk_lazy ?a"
    by simp
  have b: "tk_async ?b \<and> tk_raw ?b = Future ?f \<and> ?f 10 = Inr ?r \<and> tk_lazy ?b"
    by simp
  have c: "\<not> tk_async ?c" by simp
  note r1 = result_resolves [of ?a ?f 10 ?r, THEN conjunct1, THEN mp, OF a]
  note r2 = result_resolves [of ?b ?f 10 ?r, THEN conjunct2, THEN conjunct1, THEN mp, OF b]
  note r3 = result_resolves [of ?c _ 10, THEN conjunct2, THEN conjunct2, THEN mp, OF c]
  from r1 have "fst (result ?a 10) = TopKQueryResult_init (Response ?r) Map.empty"
    by blast
  moreover from r1 [THEN conjunct2] have "fst (result ?a 10) = Inr \<lparr>tk_raw = Response \<lparr>topk_query_result = [\<lparr>query_result_arrays = [\<lparr>id_qr = 1, distance = ''0.1''\<rparr>]\<rparr>]\<rparr>, tk_async = False, tk_lazy = False, tk_array = [[\<lparr>id_qr = 1, distance = ''0.1''\<rparr>]]\<rparr>"
    by simp
  moreover from r2 have "fst (result ?b 10) = Inr \<lparr>tk_raw = Response \<lparr>topk_query_result = [\<lparr>query_result_arrays = [\<lparr>id_qr = 1, distance = ''0.1''\<rparr>]\<rparr>]\<rparr>, tk_async = False, tk_lazy = True, tk_array = []\<rparr>"
    by simp
  moreover note r3
  ultimately show ?thesis by (intro conjI)
qed

text \<open>
  Claim C2 as stated fails for an asynchronous result that is lazy too: its future completes
  within the timeout, yet the object that \<open>result\<close> returns has no rows, while eager
  construction on the same response has one.
\<close>

theorem result_async_lazy_counterexample:
  "TopKQueryResult_init (Future (\<lambda>t::nat. if 5 \<le> t then Inr \<lparr>topk_query_result = [\<lparr>query_result_arrays = [\<lparr>id_qr = 1, distance = ''0.1''\<rparr>]\<rparr>]\<rparr> else Inl Timeout)) [''async_'' \<mapsto> True, ''lazy_'' \<mapsto> True] = Inr \<lparr>tk_raw = Future (\<lambda>t::nat. if 5 \<le> t then Inr \<lparr>topk_query_result = [\<lparr>query_result_arrays = [\<lparr>id_qr = 1, distance = ''0.1''\<rparr>]\<rparr>]\<rparr> else Inl Timeout), tk_async = True, tk_lazy = True, tk_array = []\<rparr> \<and>
   tk_async \<lparr>tk_raw = Future (\<lambda>t::nat. if 5 \<le> t then Inr \<lparr>topk_query_result = [\<lparr>query_result_arrays = [\<lparr>id_qr = 1, distance = ''0.1''\<rparr>]\<rparr>]\<rparr> else Inl Timeout), tk_async = True, tk_lazy = True, tk_array = []\<rparr> \<and> (\<lambda>t::nat. if 5 \<le> t then Inr \<lparr>topk_query_result = [\<lparr>query_result_arrays = [\<lparr>id_qr = 1, distance = ''0.1''\<rparr>]\<rparr>]\<rparr> else Inl Timeout) 10 = Inr \<lparr>topk_query_result = [\<lparr>query_result_arrays = [\<lparr>id_qr = 1, distance = ''0.1''\<rparr>]\<rparr>]\<rparr> \<and>
   fst (result \<lparr>tk_raw = Future (\<lambda>t::nat. if 5 \<le> t then Inr \<lparr>topk_query_result = [\<lparr>query_result_arrays = [\<lparr>id_qr = 1, distance = ''0.1''\<rparr>]\<rparr>]\<rparr> else Inl Timeout), tk_async = True, tk_lazy = True, tk_array = []\<rparr> 10) = Inr \<lparr>tk_raw = Response \<lparr>topk_query_result = [\<lparr>query_result_arrays = [\<lparr>id_qr = 1, distance = ''0.1''\<rparr>]\<rparr>]\<rparr>, tk_async = False, tk_lazy = True, tk_array = []\<rparr> \<and>
   TopKQueryResult_init (Response \<lparr>topk_query_result = [\<lparr>query_result_arrays = [\<lparr>id_qr = 1, distance = ''0.1''\<rparr>]\<rparr>]\<rparr>) Map.empty = Inr \<lparr>tk_raw = Response \<lparr>topk_query_result = [\<lparr>query_result_arrays = [\<lparr>id_qr = 1, distance = ''0.1''\<rparr>]\<rparr>]\<rparr>, tk_async = False, tk_lazy = False, tk_array = [[\<lparr>id_qr = 1, distance = ''0.1''\<rparr>]]\<rparr> \<and>
   fst (result \<lparr>tk_raw = Future (\<lambda>t::nat. if 5 \<le> t then Inr \<lparr>topk_query_result = [\<lparr>query_result_arrays = [\<lparr>id_qr = 1, distance = ''0.1''\<rparr>]\<rparr>]\<rparr> else Inl Timeout), tk_async = True, tk_lazy = True, tk_array = []\<rparr> 10) \<noteq> TopKQueryResult_init (Response \<lparr>topk_query_result = [\<lparr>query_result_arrays = [\<lparr>id_qr = 1, distance = ''0.1''\<rparr>]\<rparr>]\<rparr>) Map.empty"
  by (simp add: TopKQueryResult_init_def kwargs_get_def result_def create_array_def)

section \<open>Value objects\<close>

text \<open>
  Claim C7. Whenever both arguments normalize to dates, \<open>Range\<close> construction succeeds if
  the start date is not after the end date, and then stores the two normalized dates; it
  raises \<open>ParamError\<close>, producing no instance, if the start date is after the end date.
\<close>

theorem Range_init_ordered:
  assumes "parser start_arg = Inr s" and "parser end_arg = Inr e"
  shows "(s \<le> e \<longrightarrow>
            Range_init parser start_arg end_arg = Inr \<lparr>start_date = s, end_date = e\<rparr>) \<and>
         (e < s \<longrightarrow> Range_init parser start_arg end_arg = Inl ParamError)"
  using assms by (auto simp add: Range_init_def is_legal_date_range_def)

text \<open>
  The first and the second of July 2019, in both orders, under a parser that accepts the
  triples whose month and day are in range.
\<close>

theorem Range_init_ordered_witness:
  "Range_init (\<lambda>(y, m, d). if 1 \<le> m \<and> m \<le> 12 \<and> 1 \<le> d \<and> d \<le> 31
                            then Inr (y, m, d) else Inl ParamError)
      (2019, 7, 1) (2019, 7, 2) = Inr \<lparr>start_date = (2019, 7, 1), end_date = (2019, 7, 2)\<rparr> \<and>
   Range_init (\<lambda>(y, m, d). if 1 \<le> m \<and> m \<le> 12 \<and> 1 \<le> d \<and> d \<le> 31
                            then Inr (y, m, d) else Inl ParamError)
      (2019, 7, 2) (2019, 7, 1) = Inl ParamError"
proof -
  let ?p = "\<lambda>(y::nat, m::nat, d::nat). if 1 \<le> m \<and> m \<le> 12 \<and> 1 \<le> d \<and> d \<le> 31
                            then Inr (y, m, d) else Inl ParamError"
  have p1: "?p (2019, 7, 1) = Inr (2019, 7, 1)" and p2: "?p (2019, 7, 2) = Inr (2019, 7, 2)"
    by simp_all
  have le: "((2019, 7, 1) :: date) \<le> (2019, 7, 2)" and gt: "((2019, 7, 1) :: date) < (2019, 7, 2)"
    by (simp_all add: less_eq_prod_def less_prod_def)
  from Range_init_ordered [of ?p "(2019, 7, 1)" "(2019, 7, 1)" "(2019, 7, 2)" "(2019, 7, 2)",
      OF p1 p2, THEN conjunct1, THEN mp, OF le]
    Range_init_ordered [of ?p "(2019, 7, 2)" "(2019, 7, 2)" "(2019, 7, 1)" "(2019, 7, 1)",
      OF p2 p1, THEN conjunct2, THEN mp, OF gt]
  show ?thesis by (intro conjI)
qed

text \<open>
  Claim C8, amended. \<open>IndexParam\<close> construction raises \<open>ParamError\<close> when the table name
  is \<open>None\<close>. The empty string is a table name like any other: with a valid index type,
  given as a member other than \<open>INVALID\<close> or as the number of one, construction succeeds
  and stores the empty name.
\<close>

theorem IndexParam_init_table_name:
  "IndexParam_init NoneName index_type nlist = Inl ParamError \<and>
   (t \<noteq> INVALID \<longrightarrow>
      IndexParam_init (StrName []) (EnumType t) nlist =
        Inr \<lparr>ip_table_name = [], ip_index_type = t, ip_nlist = nlist\<rparr>) \<and>
   (IndexType_call n = Inr t \<and> t \<noteq> INVALID \<longrightarrow>
      IndexParam_init (StrName []) (IntType n) nlist =
        Inr \<lparr>ip_table_name = [], ip_index_type = t, ip_nlist = nlist\<rparr>)"
  by (simp add: IndexParam_init_def check_index_type_def)

text \<open>
  \<open>None\<close> is rejected; the empty name is stored together with \<open>IVF_SQ8\<close>, and with the
  index type given as the number 2.
\<close>

theorem IndexParam_init_table_name_witness:
  "IndexParam_init NoneName (EnumType FLAT) (16384 :: int) = Inl ParamError \<and>
   IndexParam_init (StrName []) (EnumType IVF_SQ8) (16384 :: int) =
     Inr \<lparr>ip_table_name = [], ip_index_type = IVF_SQ8, ip_nlist = 16384\<rparr> \<and>
   IndexParam_init (StrName []) (IntType 2) (16384 :: int) =
     Inr \<lparr>ip_table_name = [], ip_index_type = IVFLAT, ip_nlist = 16384\<rparr>"
proof -
  have a: "IVF_SQ8 \<noteq> INVALID" by simp
  have b: "IndexType_call 2 = Inr IVFLAT \<and> IVFLAT \<noteq> INVALID"
    by (simp add: IndexType_call_def)
  from IndexParam_init_table_name [of "EnumType FLAT" "16384 :: int", THEN conjunct1]
    IndexParam_init_table_name [of _ "16384 :: int" IVF_SQ8, THEN conjunct2, THEN conjunct1,
      THEN mp, OF a]
    IndexParam_init_table_name [of _ "16384 :: int" IVFLAT 2, THEN conjunct2, THEN conjunct2,
      THEN mp, OF b]
  show ?thesis by (intro conjI)
qed

text \<open>
  Claim C8 as stated fails: the empty table name with the index type \<open>FLAT\<close> and
  \<open>nlist = 16384\<close> is accepted.
\<close>

theorem IndexParam_init_empty_name_counterexample:
  "IndexParam_init (StrName []) (EnumType FLAT) (16384 :: int) =
     Inr \<lparr>ip_table_name = [], ip_index_type = FLAT, ip_nlist = 16384\<rparr> \<and>
   IndexParam_init (StrName []) (EnumType FLAT) (16384 :: int) \<noteq> Inl ParamError"
  by (simp add: IndexParam_init_def check_index_type_def)

section \<open>Rendering\<close>

lemma list_getitem_last: "xs \<noteq> [] \<Longrightarrow> list_getitem xs (- 1) = Inr (last xs)"
  using list_getitem_negative [of 1 xs]
  by (cases xs) (simp_all add: last_conv_nth)

lemma list_getitem_Nil: "list_getitem [] i = Inl IndexError"
  by (simp add: list_getitem_def)

text \<open>
  The second loop of \<open>__repr__\<close> runs over the positions \<open>0 .. len - 1\<close>, where indexing
  cannot fail, and appends each row in full.
\<close>

lemma repr_rows_indices:
  assumes "\<forall>i\<in>set idx. i < len self"
  shows "repr_rows fmt self idx acc =
           Inr (acc @ map (\<lambda>i. row_in_full fmt (tk_array self ! i)) idx)"
  using assms
proof (induction idx arbitrary: acc)
  case Nil
  show ?case by simp
next
  case (Cons i idx)
  then have "i < length (tk_array self)" by (simp add: len_def)
  then have "getitem self (int i) = Inr (tk_array self ! i)"
    by (simp add: getitem_def list_getitem_nonneg)
  with Cons show ?case by simp
qed

text \<open>
  With at most five rows every row is rendered in full, each match by \<open>lam\<close>, that is as
  \<open>(id:<id>, distance:<distance>)\<close>.
\<close>

lemma repr_small:
  assumes "len self \<le> 5"
  shows "repr fmt self =
           Inr (''['' @ NL @ join ('','' @ NL) (map (row_in_full fmt) (tk_array self)) @ NL @ '']'')"
proof -
  have "map (\<lambda>i. row_in_full fmt (tk_array self ! i)) [0..<len self] =
          map (row_in_full fmt) (map (\<lambda>i. tk_array self ! i) [0..<length (tk_array self)])"
    by (simp add: len_def)
  then have rows: "map (\<lambda>i. row_in_full fmt (tk_array self ! i)) [0..<len self] =
          map (row_in_full fmt) (tk_array self)"
    by (simp only: map_nth)
  have "repr_rows fmt self [0..<len self] [] =
          Inr ([] @ map (\<lambda>i. row_in_full fmt (tk_array self ! i)) [0..<len self])"
    by (rule repr_rows_indices) simp
  with rows have "repr_rows fmt self [0..<len self] [] =
          Inr (map (row_in_full fmt) (tk_array self))"
    by simp
  with assms show ?thesis by (simp add: repr_def)
qed

text \<open>
  The first loop of \<open>__repr__\<close> renders a row by its first three matches at most, the
  marker and its last match, which exists only if the row is not empty.
\<close>

lemma repr_middle_rows:
  assumes "[] \<notin> set rs"
  shows "repr_middle fmt rs middle = Inr (middle @ concat (map (row_truncated fmt) rs))"
  using assms
proof (induction rs arbitrary: middle)
  case Nil
  show ?case by simp
next
  case (Cons topk rest)
  then have "topk \<noteq> []" by auto
  then have "list_getitem topk (- 1) = Inr (last topk)" by (rule list_getitem_last)
  with Cons show ?case by simp
qed

lemma repr_middle_empty_row:
  assumes "[] \<in> set rs"
  shows "repr_middle fmt rs middle = Inl IndexError"
  using assms
proof (induction rs arbitrary: middle)
  case Nil
  then show ?case by simp
next
  case (Cons topk rest)
  show ?case
  proof (cases "topk = []")
    case True
    then show ?thesis by (simp add: list_getitem_Nil)
  next
    case False
    then have "list_getitem topk (- 1) = Inr (last topk)" by (rule list_getitem_last)
    moreover from False Cons.prems have "[] \<in> set rest" by auto
    ultimately show ?thesis using Cons.IH by simp
  qed
qed

text \<open>
  With more than five rows, none of the first three empty, only those three are rendered,
  truncated, followed by the two lines of dots.
\<close>

lemma repr_large:
  assumes "5 < len self" and "[] \<notin> set (take 3 (tk_array self))"
  shows "repr fmt self =
           Inr (''['' @ NL @ concat (map (row_truncated fmt) (take 3 (tk_array self))) @
                spaces @ NL @ '']'')"
  using assms(1) by (simp add: repr_def repr_middle_rows [OF assms(2)])

text \<open>
  With more than five rows, one of the first three empty, \<open>topk[-1]\<close> raises.
\<close>

lemma repr_large_empty_row:
  assumes "5 < len self" and "[] \<in> set (take 3 (tk_array self))"
  shows "repr fmt self = Inl IndexError"
  using assms(1) by (simp add: repr_def repr_middle_empty_row [OF assms(2)])

text \<open>Examples of the texts.\<close>

lemma str_int_1: "str_int 1 = ''1''"
  by (simp add: str_int_def str_nat.simps digit_char_def)

lemma str_int_neg: "str_int (- 120) = ''-120''"
  by (simp add: str_int_def str_nat.simps digit_char_def)

lemma lam_ex: "lam (\<lambda>d. d) \<lparr>id_qr = 1, distance = ''0.1''\<rparr> = ''(id:1, distance:0.1)''"
  by (simp add: lam_def str_int_def str_nat.simps digit_char_def)

lemma repr_small_ex:
  "repr (\<lambda>d. d) two_rows_result =
   Inr (''['' @ NL @
        ''['' @ NL @ ''(id:1, distance:0.1),'' @ NL @ ''(id:2, distance:0.5)'' @ NL @ ''],'' @ NL @
        ''['' @ NL @ ''(id:3, distance:0.2)'' @ NL @ '']'' @ NL @
        '']'')"
  by (simp add: repr_def len_def getitem_def list_getitem_def lam_def str_int_def str_nat.simps
      digit_char_def upt_conv_Cons)

text \<open>
  Claim C6. The rendering of a result with more than five rows shows the first three rows
  only, each by at most three matches, the marker and the row's last match; with at most
  five rows it shows every row in full (\<open>repr_large\<close> and \<open>repr_small\<close> above). The claim
  is made for every result, but the code has no rendering for a result of more than five
  rows in which one of the first three rows has no match: for the response of six queries
  below, the first of which found nothing, \<open>__repr__\<close> raises \<open>IndexError\<close>.
\<close>

theorem repr_empty_row_IndexError:
  "TopKQueryResult_init (Response six_queries) Map.empty = Inr six_rows_result \<and>
   len six_rows_result = 6 \<and>
   repr (\<lambda>d. d) six_rows_result = Inl IndexError"
  by (simp add: TopKQueryResult_init_def kwargs_get_def create_array_def repr_def len_def
      list_getitem_def)

end
